theory Spec2Isabelle
  imports Complex_Main "HOL-Library.Sublist"
begin

section \<open>Python values, exceptions and the outside world\<close>

text \<open>
  The service is dynamically typed: whatever the JSON decoder produces is stored in the
  dataclass fields without any check. Values are therefore modelled as the decoder's
  universe. Python floats are read as real numbers (no rounding, no NaN, no overflow);
  a dict is an association list in insertion order, looked up with \<open>map_of\<close>.
\<close>

datatype pyval =
    PNone
  | PBool bool
  | PInt int
  | PFloat real
  | PStr string
  | PList "pyval list"
  | PDict "(string \<times> pyval) list"

text \<open>The exceptions that the code under study can meet.\<close>

datatype exn =
    RequestException | KeyError | IndexError | AttributeError | TypeError | ValueError
  | OverflowError | RecursionError

text \<open>
  What the JSON decoder makes of a response body: the text is not JSON; the text is JSON
  but the decoder gives up on it, on an integer of more than 4300 digits (a plain
  \<open>ValueError\<close>) or on nesting too deep (\<open>RecursionError\<close>); or a value.
\<close>

datatype body = NotJson | TooManyDigits | TooDeep | Json pyval

text \<open>
  What one outbound \<open>requests.get\<close> can end in: no response at all (connection error,
  timeout), or a response with a status code and a body.
\<close>

datatype http_outcome = NoResponse | Response nat body

record upstream =
  geocoder :: "string \<Rightarrow> http_outcome"
  feed :: http_outcome

datatype call = GeocoderGet string | FeedGet

subsection \<open>Builtins\<close>

definition truthy :: "pyval \<Rightarrow> bool" where
  "truthy v = (case v of
      PNone \<Rightarrow> False
    | PBool b \<Rightarrow> b
    | PInt i \<Rightarrow> i \<noteq> 0
    | PFloat r \<Rightarrow> r \<noteq> 0
    | PStr s \<Rightarrow> s \<noteq> []
    | PList xs \<Rightarrow> xs \<noteq> []
    | PDict d \<Rightarrow> d \<noteq> [])"

definition dict_get :: "(string \<times> pyval) list \<Rightarrow> string \<Rightarrow> pyval \<Rightarrow> pyval" where
  "dict_get d k dflt = (case map_of d k of Some v \<Rightarrow> v | None \<Rightarrow> dflt)"

text \<open>\<open>v.get(k, dflt)\<close>: only a dict has the method.\<close>

definition py_get :: "pyval \<Rightarrow> string \<Rightarrow> pyval \<Rightarrow> exn + pyval" where
  "py_get v k dflt = (case v of PDict d \<Rightarrow> Inr (dict_get d k dflt) | _ \<Rightarrow> Inl AttributeError)"

text \<open>
  \<open>v[0]\<close>: the first element of a list or string, \<open>IndexError\<close> when it is empty; a dict
  decoded from JSON has string keys only, so the key \<open>0\<close> is missing; the other values
  are not subscriptable.
\<close>

definition py_first :: "pyval \<Rightarrow> exn + pyval" where
  "py_first v = (case v of
      PList xs \<Rightarrow> (case xs of [] \<Rightarrow> Inl IndexError | x # _ \<Rightarrow> Inr x)
    | PStr s \<Rightarrow> (case s of [] \<Rightarrow> Inl IndexError | c # _ \<Rightarrow> Inr (PStr [c]))
    | PDict d \<Rightarrow> Inl KeyError
    | _ \<Rightarrow> Inl TypeError)"

text \<open>\<open>for item in v\<close>: the items a loop over \<open>v\<close> visits.\<close>

definition py_iter :: "pyval \<Rightarrow> exn + pyval list" where
  "py_iter v = (case v of
      PList xs \<Rightarrow> Inr xs
    | PDict d \<Rightarrow> Inr (map (\<lambda>kv. PStr (fst kv)) d)
    | PStr s \<Rightarrow> Inr (map (\<lambda>c. PStr [c]) s)
    | _ \<Rightarrow> Inl TypeError)"

text \<open>The number a value stands for in arithmetic and in \<open>math.radians\<close>, if any.\<close>

definition py_number :: "pyval \<Rightarrow> real option" where
  "py_number v = (case v of
      PBool b \<Rightarrow> Some (if b then 1 else 0)
    | PInt i \<Rightarrow> Some (of_int i)
    | PFloat r \<Rightarrow> Some r
    | _ \<Rightarrow> None)"

text \<open>\<open>xs[:n]\<close>: a negative bound counts from the end.\<close>

definition py_slice_to :: "int \<Rightarrow> 'a list \<Rightarrow> 'a list" where
  "py_slice_to n xs =
     (if 0 \<le> n then take (nat n) xs else take (nat (int (length xs) + n)) xs)"

subsection \<open>The math module, on the reals\<close>

definition radians :: "real \<Rightarrow> real" where
  "radians x = x * (pi / 180)"

definition atan2 :: "real \<Rightarrow> real \<Rightarrow> real" where
  "atan2 y x =
     (if 0 < x then arctan (y / x)
      else if x < 0 then (if 0 \<le> y then arctan (y / x) + pi else arctan (y / x) - pi)
      else if 0 < y then pi / 2
      else if y < 0 then - (pi / 2)
      else 0)"

text \<open>\<open>math.sqrt\<close> raises \<open>ValueError\<close> below zero.\<close>

definition math_sqrt :: "real \<Rightarrow> exn + real" where
  "math_sqrt x = (if x < 0 then Inl ValueError else Inr (sqrt x))"

section \<open>nes_service: data model\<close>

record Coordinates =
  lat :: pyval
  lng :: pyval

record OutageEvent =
  id_field :: pyval
  identifier_field :: pyval
  title :: pyval
  status :: pyval
  cause :: pyval
  num_people :: pyval
  start_time :: pyval
  last_updated_time :: pyval
  latitude :: pyval
  longitude :: pyval
  distance_miles :: "real option"

text \<open>
  Events are objects: a list of events is a list of references into the heap, and an
  assignment to a field is visible through every reference to the object. The state also
  records the outbound HTTP calls made so far.
\<close>

record state =
  heap :: "OutageEvent list"
  calls :: "call list"

definition opt_float :: "real option \<Rightarrow> pyval" where
  "opt_float d = (case d of None \<Rightarrow> PNone | Some x \<Rightarrow> PFloat x)"

definition to_dict :: "OutageEvent \<Rightarrow> (string \<times> pyval) list" where
  "to_dict e =
     [(''id'', id_field e),
      (''identifier'', identifier_field e),
      (''title'', title e),
      (''status'', status e),
      (''cause'', cause e),
      (''num_people'', num_people e),
      (''start_time'', start_time e),
      (''last_updated_time'', last_updated_time e),
      (''latitude'', latitude e),
      (''longitude'', longitude e),
      (''distance_miles'', opt_float (distance_miles e))]"

section \<open>haversine_miles\<close>

text \<open>
  The four arguments are whatever the caller holds in the coordinate fields; anything that
  is not a number makes \<open>math.radians\<close> (or the subtraction) raise \<open>TypeError\<close>.
\<close>

definition haversine_a :: "real \<Rightarrow> real \<Rightarrow> real \<Rightarrow> real \<Rightarrow> real" where
  "haversine_a lat1 lng1 lat2 lng2 =
     (let lat1_rad = radians lat1;
          lat2_rad = radians lat2;
          delta_lat = radians (lat2 - lat1);
          delta_lng = radians (lng2 - lng1)
      in (sin (delta_lat / 2))\<^sup>2 + cos lat1_rad * cos lat2_rad * (sin (delta_lng / 2))\<^sup>2)"

definition haversine_miles :: "pyval \<Rightarrow> pyval \<Rightarrow> pyval \<Rightarrow> pyval \<Rightarrow> exn + real" where
  "haversine_miles lat1 lng1 lat2 lng2 =
     (case (py_number lat1, py_number lng1, py_number lat2, py_number lng2) of
        (Some la1, Some lo1, Some la2, Some lo2) \<Rightarrow>
          (let a = haversine_a la1 lo1 la2 lo2 in
           case math_sqrt a of
             Inl e \<Rightarrow> Inl e
           | Inr sa \<Rightarrow>
               (case math_sqrt (1 - a) of
                  Inl e \<Rightarrow> Inl e
                | Inr sb \<Rightarrow> Inr (3959 * (2 * atan2 sa sb))))
      | _ \<Rightarrow> Inl TypeError)"

text \<open>Sequencing: an exception in a statement skips the statements after it.\<close>

definition and_then :: "exn + 'a \<Rightarrow> ('a \<Rightarrow> exn + 'b) \<Rightarrow> exn + 'b" where
  "and_then m f = (case m of Inl e \<Rightarrow> Inl e | Inr x \<Rightarrow> f x)"

section \<open>The requests library\<close>

text \<open>
  \<open>requests.get\<close> raises a \<open>RequestException\<close> when no response arrives;
  \<open>raise_for_status\<close> raises one (\<open>HTTPError\<close>) for the status codes 400 to 599;
  \<open>resp.json()\<close> raises one (\<open>requests.exceptions.JSONDecodeError\<close>, a subclass of
  \<open>RequestException\<close> in the current library) when the body is not JSON, and lets the
  decoder's other exceptions through as they are.
\<close>

definition requests_get :: "http_outcome \<Rightarrow> exn + nat \<times> body" where
  "requests_get out = (case out of NoResponse \<Rightarrow> Inl RequestException | Response st b \<Rightarrow> Inr (st, b))"

definition raise_for_status :: "nat \<times> body \<Rightarrow> exn + unit" where
  "raise_for_status resp = (if 400 \<le> fst resp \<and> fst resp < 600 then Inl RequestException else Inr ())"

definition resp_json :: "nat \<times> body \<Rightarrow> exn + pyval" where
  "resp_json resp =
     (case snd resp of
        NotJson \<Rightarrow> Inl RequestException
      | TooManyDigits \<Rightarrow> Inl ValueError
      | TooDeep \<Rightarrow> Inl RecursionError
      | Json v \<Rightarrow> Inr v)"

section \<open>geocode_address\<close>

text \<open>The body of the \<open>try\<close> block.\<close>

definition geocode_try :: "http_outcome \<Rightarrow> exn + Coordinates option" where
  "geocode_try out =
     and_then (requests_get out) (\<lambda>resp.
     and_then (raise_for_status resp) (\<lambda>_.
     and_then (resp_json resp) (\<lambda>data.
     and_then (py_get data ''result'' (PDict [])) (\<lambda>res.
     and_then (py_get res ''addressMatches'' (PList [])) (\<lambda>matches.
       if \<not> truthy matches then Inr None
       else
         and_then (py_first matches) (\<lambda>m.
         and_then (py_get m ''coordinates'' (PDict [])) (\<lambda>coords.
         and_then (py_get coords ''y'' PNone) (\<lambda>y.
         and_then (py_get coords ''x'' PNone) (\<lambda>x.
           Inr (Some \<lparr>lat = y, lng = x\<rparr>))))))))))"

text \<open>
  The \<open>except\<close> clause turns \<open>RequestException\<close>, \<open>KeyError\<close> and \<open>IndexError\<close> into
  \<open>None\<close>; any other exception leaves the function.
\<close>

definition geocode_address ::
  "string \<Rightarrow> upstream \<Rightarrow> state \<Rightarrow> (exn + Coordinates option) \<times> state" where
  "geocode_address address w s =
     (case geocode_try (geocoder w address) of
        Inl e \<Rightarrow> if e = RequestException \<or> e = KeyError \<or> e = IndexError then Inr None else Inl e
      | Inr r \<Rightarrow> Inr r,
      s\<lparr>calls := calls s @ [GeocoderGet address]\<rparr>)"

section \<open>fetch_nes_events\<close>

definition event_of_item :: "pyval \<Rightarrow> exn + OutageEvent" where
  "event_of_item item =
     (case item of
        PDict d \<Rightarrow>
          Inr \<lparr>id_field = dict_get d ''id'' PNone,
               identifier_field = dict_get d ''identifier'' PNone,
               title = dict_get d ''title'' (PStr []),
               status = dict_get d ''status'' (PStr []),
               cause = dict_get d ''cause'' PNone,
               num_people = dict_get d ''numPeople'' (PInt 0),
               start_time = dict_get d ''startTime'' (PInt 0),
               last_updated_time = dict_get d ''lastUpdatedTime'' (PInt 0),
               latitude = dict_get d ''latitude'' (PInt 0),
               longitude = dict_get d ''longitude'' (PInt 0),
               distance_miles = None\<rparr>
      | _ \<Rightarrow> Inl AttributeError)"

text \<open>The loop over the items: the first item that raises ends it.\<close>

fun events_of_items :: "pyval list \<Rightarrow> exn + OutageEvent list" where
  "events_of_items [] = Inr []"
| "events_of_items (item # items) =
     and_then (event_of_item item) (\<lambda>ev.
     and_then (events_of_items items) (\<lambda>evs.
       Inr (ev # evs)))"

definition fetch_try :: "http_outcome \<Rightarrow> exn + OutageEvent list" where
  "fetch_try out =
     and_then (requests_get out) (\<lambda>resp.
     and_then (raise_for_status resp) (\<lambda>_.
     and_then (resp_json resp) (\<lambda>data.
     and_then (py_iter data) (\<lambda>items.
       events_of_items items))))"

text \<open>
  Only \<open>RequestException\<close> is caught. The events built are new objects: they are put at the
  end of the heap and returned as references.
\<close>

definition fetch_nes_events :: "upstream \<Rightarrow> state \<Rightarrow> (exn + nat list) \<times> state" where
  "fetch_nes_events w s =
     (let s1 = s\<lparr>calls := calls s @ [FeedGet]\<rparr> in
      case fetch_try (feed w) of
        Inl e \<Rightarrow> if e = RequestException then (Inr [], s1) else (Inl e, s1)
      | Inr evs \<Rightarrow>
          (Inr [length (heap s1) ..< length (heap s1) + length evs],
           s1\<lparr>heap := heap s1 @ evs\<rparr>))"

section \<open>find_nearest_events\<close>

text \<open>
  The sort key \<open>e.distance_miles or float('inf')\<close> is a float or infinity, compared as
  Python compares floats.
\<close>

datatype dist_key = Finite real | Infinity

instantiation dist_key :: linorder
begin

definition less_eq_dist_key :: "dist_key \<Rightarrow> dist_key \<Rightarrow> bool" where
  "less_eq_dist_key a b =
     (case b of Infinity \<Rightarrow> True
      | Finite y \<Rightarrow> (case a of Infinity \<Rightarrow> False | Finite x \<Rightarrow> x \<le> y))"

definition less_dist_key :: "dist_key \<Rightarrow> dist_key \<Rightarrow> bool" where
  "less_dist_key a b =
     (case a of Infinity \<Rightarrow> False
      | Finite x \<Rightarrow> (case b of Infinity \<Rightarrow> True | Finite y \<Rightarrow> x < y))"

instance
  by standard (auto simp: less_eq_dist_key_def less_dist_key_def split: dist_key.splits)

end

text \<open>\<open>x or float('inf')\<close>: \<open>None\<close> and \<open>0.0\<close> are both false.\<close>

definition rank_key :: "OutageEvent \<Rightarrow> dist_key" where
  "rank_key e =
     (case distance_miles e of
        None \<Rightarrow> Infinity
      | Some d \<Rightarrow> if d = 0 then Infinity else Finite d)"

text \<open>
  The loop \<open>for event in events: event.distance_miles = haversine_miles(...)\<close> writes into
  the objects the list refers to; when a distance raises, the events before it stay written.
\<close>

fun annotate :: "Coordinates \<Rightarrow> nat list \<Rightarrow> OutageEvent list \<Rightarrow> (exn + unit) \<times> OutageEvent list" where
  "annotate coords [] h = (Inr (), h)"
| "annotate coords (r # rs) h =
     (case haversine_miles (lat coords) (lng coords) (latitude (h ! r)) (longitude (h ! r)) of
        Inl e \<Rightarrow> (Inl e, h)
      | Inr d \<Rightarrow> annotate coords rs (h[r := (h ! r)\<lparr>distance_miles := Some d\<rparr>]))"

text \<open>\<open>sorted\<close> is a stable sort on the keys, as \<open>sort_key\<close> is.\<close>

definition find_nearest_events ::
  "Coordinates \<Rightarrow> int \<Rightarrow> nat list option \<Rightarrow> upstream \<Rightarrow> state \<Rightarrow> (exn + nat list) \<times> state" where
  "find_nearest_events coords limit events w s =
     (case (case events of None \<Rightarrow> fetch_nes_events w s | Some evs \<Rightarrow> (Inr evs, s)) of
        (Inl e, s1) \<Rightarrow> (Inl e, s1)
      | (Inr evs, s1) \<Rightarrow>
          (case annotate coords evs (heap s1) of
             (Inl e, h) \<Rightarrow> (Inl e, s1\<lparr>heap := h\<rparr>)
           | (Inr _, h) \<Rightarrow>
               (let sorted_events = sort_key (\<lambda>r. rank_key (h ! r)) evs
                in (Inr (py_slice_to limit sorted_events), s1\<lparr>heap := h\<rparr>))))"

section \<open>find_nearest_by_address\<close>

definition find_nearest_by_address ::
  "string \<Rightarrow> int \<Rightarrow> upstream \<Rightarrow> state \<Rightarrow> (exn + (string \<times> pyval) list) \<times> state" where
  "find_nearest_by_address address limit w s =
     (case geocode_address address w s of
        (Inl e, s1) \<Rightarrow> (Inl e, s1)
      | (Inr None, s1) \<Rightarrow>
          (Inr [(''error'', PStr ''Could not geocode address''),
                (''query_address'', PStr address)], s1)
      | (Inr (Some coords), s1) \<Rightarrow>
          (case find_nearest_events coords limit None w s1 of
             (Inl e, s2) \<Rightarrow> (Inl e, s2)
           | (Inr evs, s2) \<Rightarrow>
               (Inr [(''query_address'', PStr address),
                     (''coordinates'', PDict [(''lat'', lat coords), (''lng'', lng coords)]),
                     (''events'', PList (map (\<lambda>r. PDict (to_dict (heap s2 ! r))) evs))],
                s2)))"

section \<open>server: the HTTP handlers\<close>

text \<open>
  A handler maps the query parameters to a JSON body and a status code. The builtin
  \<open>int\<close> on strings is a parameter: it gives the integer a string denotes, or \<open>None\<close>
  where Python raises \<open>ValueError\<close>.
\<close>

definition health :: "pyval \<times> nat" where
  "health = (PDict [(''status'', PStr ''ok'')], 200)"

definition events :: "upstream \<Rightarrow> state \<Rightarrow> (exn + pyval \<times> nat) \<times> state" where
  "events w s =
     (case fetch_nes_events w s of
        (Inl e, s1) \<Rightarrow> (Inl e, s1)
      | (Inr evs, s1) \<Rightarrow>
          (Inr (PDict [(''count'', PInt (int (length evs))),
                       (''events'', PList (map (\<lambda>r. PDict (to_dict (heap s1 ! r))) evs))], 200),
           s1))"

definition nearest ::
  "(string \<Rightarrow> int option) \<Rightarrow> (string \<Rightarrow> string option) \<Rightarrow> upstream \<Rightarrow> state
   \<Rightarrow> (exn + pyval \<times> nat) \<times> state" where
  "nearest py_int args w s =
     (case args ''address'' of
        None \<Rightarrow> (Inr (PDict [(''error'', PStr ''Missing required 'address' parameter'')], 400), s)
      | Some address \<Rightarrow>
          if address = [] then (Inr (PDict [(''error'', PStr ''Missing required 'address' parameter'')], 400), s)
          else
            (case (case args ''limit'' of None \<Rightarrow> Some 5 | Some l \<Rightarrow> py_int l) of
               None \<Rightarrow> (Inr (PDict [(''error'', PStr ''Invalid 'limit' parameter'')], 400), s)
             | Some limit \<Rightarrow>
                 (case find_nearest_by_address address limit w s of
                    (Inl e, s1) \<Rightarrow> (Inl e, s1)
                  | (Inr result, s1) \<Rightarrow>
                      if map_of result ''error'' \<noteq> None then (Inr (PDict result, 404), s1)
                      else (Inr (PDict result, 200), s1))))"

definition geocode ::
  "(string \<Rightarrow> string option) \<Rightarrow> upstream \<Rightarrow> state \<Rightarrow> (exn + pyval \<times> nat) \<times> state" where
  "geocode args w s =
     (case args ''address'' of
        None \<Rightarrow> (Inr (PDict [(''error'', PStr ''Missing required 'address' parameter'')], 400), s)
      | Some address \<Rightarrow>
          if address = [] then (Inr (PDict [(''error'', PStr ''Missing required 'address' parameter'')], 400), s)
          else
            (case geocode_address address w s of
               (Inl e, s1) \<Rightarrow> (Inl e, s1)
             | (Inr None, s1) \<Rightarrow>
                 (Inr (PDict [(''error'', PStr ''Could not geocode address'')], 404), s1)
             | (Inr (Some coords), s1) \<Rightarrow>
                 (Inr (PDict [(''address'', PStr address),
                              (''coordinates'',
                               PDict [(''lat'', lat coords), (''lng'', lng coords)])], 200),
                  s1)))"

section \<open>Inputs of the declared types\<close>

text \<open>
  The dataclasses declare the coordinate fields as floats. A value is numeric when
  arithmetic accepts it; a list of events is well typed against a heap when every reference
  points into the heap and the coordinates involved are numeric.
\<close>

definition numeric :: "pyval \<Rightarrow> bool" where
  "numeric v = (py_number v \<noteq> None)"

definition well_typed :: "Coordinates \<Rightarrow> nat list \<Rightarrow> OutageEvent list \<Rightarrow> bool" where
  "well_typed coords evs h =
     (numeric (lat coords) \<and> numeric (lng coords)
      \<and> (\<forall>r \<in> set evs. r < length h \<and> numeric (latitude (h ! r)) \<and> numeric (longitude (h ! r))))"

text \<open>A JSON object, the only kind of item that has \<open>get\<close>.\<close>

definition is_object :: "pyval \<Rightarrow> bool" where
  "is_object item = (case item of PDict d \<Rightarrow> True | _ \<Rightarrow> False)"

text \<open>An item of the feed whose coordinates, after the defaults, are numeric.\<close>

definition located_item :: "pyval \<Rightarrow> bool" where
  "located_item item =
     (case item of
        PDict d \<Rightarrow> numeric (dict_get d ''latitude'' (PInt 0))
                   \<and> numeric (dict_get d ''longitude'' (PInt 0))
      | _ \<Rightarrow> False)"

text \<open>Concrete inputs for the examples below.\<close>

definition event_at :: "int \<Rightarrow> pyval \<Rightarrow> pyval \<Rightarrow> OutageEvent" where
  "event_at n la lo =
     \<lparr>id_field = PInt n, identifier_field = PStr ''E'', title = PStr ''Power Outage'',
      status = PStr ''Unassigned'', cause = PNone, num_people = PInt 10,
      start_time = PInt 0, last_updated_time = PInt 0,
      latitude = la, longitude = lo, distance_miles = None\<rparr>"

definition origin :: Coordinates where
  "origin = \<lparr>lat = PFloat 0, lng = PFloat 0\<rparr>"

definition three_events :: "OutageEvent list" where
  "three_events =
     [event_at 1 (PFloat 90) (PFloat 0), event_at 2 (PFloat 0) (PFloat 0),
      event_at 3 (PFloat 90) (PFloat 0)]"

definition replies :: "http_outcome \<Rightarrow> http_outcome \<Rightarrow> upstream" where
  "replies g f = \<lparr>geocoder = (\<lambda>_. g), feed = f\<rparr>"

definition answers :: "pyval \<Rightarrow> pyval \<Rightarrow> upstream" where
  "answers g f = replies (Response 200 (Json g)) (Response 200 (Json f))"

definition silent :: upstream where
  "silent = replies NoResponse NoResponse"

definition fresh :: state where
  "fresh = \<lparr>heap = [], calls = []\<rparr>"

definition geocoded :: "pyval list \<Rightarrow> pyval" where
  "geocoded ms = PDict [(''result'', PDict [(''addressMatches'', PList ms)])]"

definition match_at :: "pyval \<Rightarrow> pyval \<Rightarrow> pyval" where
  "match_at x y =
     PDict [(''matchedAddress'', PStr ''1 MAIN ST, NASHVILLE, TN''),
            (''coordinates'', PDict [(''x'', x), (''y'', y)])]"

definition outage_item :: "int \<Rightarrow> pyval \<Rightarrow> pyval \<Rightarrow> pyval" where
  "outage_item n la lo = PDict [(''id'', PInt n), (''latitude'', la), (''longitude'', lo)]"

definition event_of :: "int \<Rightarrow> pyval \<Rightarrow> pyval \<Rightarrow> OutageEvent" where
  "event_of n la lo =
     \<lparr>id_field = PInt n, identifier_field = PNone, title = PStr [], status = PStr [],
      cause = PNone, num_people = PInt 0, start_time = PInt 0, last_updated_time = PInt 0,
      latitude = la, longitude = lo, distance_miles = None\<rparr>"

definition one_outage :: upstream where
  "one_outage =
     answers (geocoded [match_at (PFloat 0) (PFloat 0)])
             (PList [outage_item 7 (PFloat 90) (PFloat 0)])"

section \<open>Properties of the distance\<close>

lemma haversine_a_sym: "haversine_a la1 lo1 la2 lo2 = haversine_a la2 lo2 la1 lo1"
proof -
  have s: "(sin (radians (x - y) / 2))\<^sup>2 = (sin (radians (y - x) / 2))\<^sup>2" for x y :: real
  proof -
    have "radians (x - y) / 2 = - (radians (y - x) / 2)"
      by (simp add: radians_def field_simps)
    then show ?thesis by (simp only: sin_minus power2_minus)
  qed
  show ?thesis
    unfolding haversine_a_def Let_def
    by (simp only: s [of la2 la1] s [of lo2 lo1] mult.commute [of "cos (radians la1)"])
qed

lemma haversine_a_same: "haversine_a la lo la lo = 0"
  by (simp add: haversine_a_def radians_def)

text \<open>
  C8. The distance is symmetric in its two points, whatever the arguments are, and the
  distance from a point to itself is zero (exactly so on the reals).
\<close>

theorem haversine_miles_symmetric_zero:
  "haversine_miles lat1 lng1 lat2 lng2 = haversine_miles lat2 lng2 lat1 lng1
   \<and> haversine_miles (PFloat x) (PFloat y) (PFloat x) (PFloat y) = Inr 0"
proof
  show "haversine_miles lat1 lng1 lat2 lng2 = haversine_miles lat2 lng2 lat1 lng1"
  proof (cases "\<exists>a b c d. py_number lat1 = Some a \<and> py_number lng1 = Some b
                  \<and> py_number lat2 = Some c \<and> py_number lng2 = Some d")
    case True
    then obtain a b c d where n: "py_number lat1 = Some a" "py_number lng1 = Some b"
        "py_number lat2 = Some c" "py_number lng2 = Some d"
      by blast
    show ?thesis
      unfolding haversine_miles_def n by (simp add: haversine_a_sym [of a b c d])
  next
    case False
    then show ?thesis
      unfolding haversine_miles_def by (auto split: option.splits)
  qed
  show "haversine_miles (PFloat x) (PFloat y) (PFloat x) (PFloat y) = Inr 0"
    by (simp add: haversine_miles_def py_number_def haversine_a_same math_sqrt_def atan2_def)
qed

text \<open>
  On the reals the haversine term stays between 0 and 1, so neither square root raises:
  on numbers the distance is always returned, and it is not negative.
\<close>

lemma haversine_a_bounds: "0 \<le> haversine_a la1 lo1 la2 lo2 \<and> haversine_a la1 lo1 la2 lo2 \<le> 1"
proof -
  define x where "x = radians la1"
  define y where "y = radians la2"
  define u where "u = (sin (radians (la2 - la1) / 2))\<^sup>2"
  define t where "t = (sin (radians (lo2 - lo1) / 2))\<^sup>2"
  define p where "p = cos x * cos y"
  have a: "haversine_a la1 lo1 la2 lo2 = u + p * t"
    by (simp add: haversine_a_def u_def t_def p_def x_def y_def)
  have u01: "0 \<le> u" "u \<le> 1" and t01: "0 \<le> t" "t \<le> 1"
    by (simp_all add: u_def t_def abs_square_le_1)
  have d: "radians (la2 - la1) = y - x"
    by (simp add: radians_def x_def y_def field_simps)
  have h2: "2 * ((y - x) / 2) = y - x" by simp
  have "cos (y - x) = cos (2 * ((y - x) / 2))" by (simp only: h2)
  also have "\<dots> = 1 - 2 * u"
    unfolding u_def d by (rule cos_double_sin)
  finally have c: "cos (x - y) = 1 - 2 * u"
    using cos_minus [of "x - y"] by simp
  have p: "p = (1 - 2 * u + cos (x + y)) / 2"
    unfolding p_def cos_times_cos c ..
  have cl: "0 \<le> 1 + cos (x + y)"
    using cos_ge_minus_one [of "x + y"] by linarith
  have plo: "- u \<le> p"
    unfolding p by (simp add: field_simps cl)
  have phi: "p \<le> 1 - u"
    unfolding p by (simp add: field_simps)
  have "- u * t \<le> p * t" using plo t01 by (intro mult_right_mono) simp_all
  moreover have "u * t \<le> u * 1" using u01 t01 by (intro mult_left_mono) simp_all
  ultimately have lo: "0 \<le> u + p * t" by simp
  have "p * t \<le> (1 - u) * t" using phi t01 by (intro mult_right_mono) simp_all
  moreover have "(1 - u) * t \<le> (1 - u) * 1" using u01 t01 by (intro mult_left_mono) simp_all
  ultimately have hi: "u + p * t \<le> 1" by simp
  show ?thesis using lo hi by (simp add: a)
qed

lemma atan2_nonneg: "0 \<le> y \<Longrightarrow> 0 \<le> x \<Longrightarrow> 0 \<le> atan2 y x"
  by (auto simp: atan2_def)

lemma haversine_miles_numeric:
  assumes "py_number lat1 = Some a" "py_number lng1 = Some b"
    "py_number lat2 = Some c" "py_number lng2 = Some d"
  shows "\<exists>m. haversine_miles lat1 lng1 lat2 lng2 = Inr m \<and> 0 \<le> m"
  using haversine_a_bounds [of a b c d]
  by (simp add: haversine_miles_def assms math_sqrt_def Let_def atan2_nonneg)

text \<open>Two distances worked out: a quarter of a great circle, and none at all.\<close>

lemma haversine_a_quarter_turn: "haversine_a 0 0 90 0 = 1 / 2"
  by (simp add: haversine_a_def radians_def sin_45 power_divide)

lemma atan2_diag: "0 < x \<Longrightarrow> atan2 x x = pi / 4"
  by (simp add: atan2_def arctan_one)

lemma haversine_miles_0_90:
  "haversine_miles (PFloat 0) (PFloat 0) (PFloat 90) (PFloat 0) = Inr (3959 * (pi / 2))"
  by (simp add: haversine_miles_def py_number_def haversine_a_quarter_turn math_sqrt_def atan2_diag)

lemma haversine_miles_0_0:
  "haversine_miles (PFloat 0) (PFloat 0) (PFloat 0) (PFloat 0) = Inr 0"
  by (simp add: haversine_miles_def py_number_def haversine_a_same math_sqrt_def atan2_def)

section \<open>The annotation loop\<close>

lemma update_frame:
  "(h[r := (h ! r)\<lparr>distance_miles := d\<rparr>] ! i)\<lparr>distance_miles := x\<rparr> = (h ! i)\<lparr>distance_miles := x\<rparr>"
  by (cases "r < length h"; cases "i = r") (simp_all add: list_update_beyond not_less)

lemma update_located:
  "latitude (h[r := (h ! r)\<lparr>distance_miles := d\<rparr>] ! i) = latitude (h ! i)"
  "longitude (h[r := (h ! r)\<lparr>distance_miles := d\<rparr>] ! i) = longitude (h ! i)"
  by (cases "r < length h"; cases "i = r"; simp add: list_update_beyond not_less)+

text \<open>
  Whether the loop finishes or raises, it keeps the size of the heap, changes no field
  other than \<open>distance_miles\<close>, and touches no object outside the list.
\<close>

lemma annotate_frame:
  "annotate c rs h = (res, h') \<Longrightarrow>
     length h' = length h
     \<and> (\<forall>i x. (h' ! i)\<lparr>distance_miles := x\<rparr> = (h ! i)\<lparr>distance_miles := x\<rparr>)
     \<and> (\<forall>i. i \<notin> set rs \<longrightarrow> h' ! i = h ! i)"
proof (induction rs arbitrary: h)
  case Nil
  then show ?case by simp
next
  case (Cons r rs)
  show ?case
  proof (cases "haversine_miles (lat c) (lng c) (latitude (h ! r)) (longitude (h ! r))")
    case (Inl e)
    with Cons.prems show ?thesis by simp
  next
    case (Inr d)
    let ?h1 = "h[r := (h ! r)\<lparr>distance_miles := Some d\<rparr>]"
    from Cons.prems Inr have "annotate c rs ?h1 = (res, h')" by simp
    from Cons.IH [OF this] show ?thesis
      by (simp add: update_frame)
  qed
qed

text \<open>When the loop finishes, every listed object holds its own distance.\<close>

lemma annotate_written:
  "annotate c rs h = (Inr u, h') \<Longrightarrow> \<forall>r \<in> set rs. r < length h \<Longrightarrow> r \<in> set rs \<Longrightarrow>
     \<exists>d. haversine_miles (lat c) (lng c) (latitude (h ! r)) (longitude (h ! r)) = Inr d
        \<and> h' ! r = (h ! r)\<lparr>distance_miles := Some d\<rparr>"
proof (induction rs arbitrary: h)
  case Nil
  then show ?case by simp
next
  case (Cons a rs)
  from Cons.prems(1) obtain d where
    d: "haversine_miles (lat c) (lng c) (latitude (h ! a)) (longitude (h ! a)) = Inr d"
    by (cases "haversine_miles (lat c) (lng c) (latitude (h ! a)) (longitude (h ! a))") auto
  let ?h1 = "h[a := (h ! a)\<lparr>distance_miles := Some d\<rparr>]"
  from Cons.prems(1) d have run: "annotate c rs ?h1 = (Inr u, h')" by simp
  show ?case
  proof (cases "r \<in> set rs")
    case True
    from Cons.prems(2) have "\<forall>r \<in> set rs. r < length ?h1" by simp
    from Cons.IH [OF run this True] obtain d' where
      d': "haversine_miles (lat c) (lng c) (latitude (?h1 ! r)) (longitude (?h1 ! r)) = Inr d'"
        "h' ! r = (?h1 ! r)\<lparr>distance_miles := Some d'\<rparr>"
      by blast
    then show ?thesis
      by (simp only: update_located update_frame) blast
  next
    case False
    with Cons.prems(3) have ra: "r = a" by simp
    from annotate_frame [OF run] False have "h' ! r = ?h1 ! r" by blast
    with ra Cons.prems(2) d show ?thesis by simp
  qed
qed

lemma annotate_total:
  "well_typed c rs h \<Longrightarrow> \<exists>h'. annotate c rs h = (Inr (), h')"
proof (induction rs arbitrary: h)
  case Nil
  then show ?case by simp
next
  case (Cons a rs)
  from Cons.prems obtain d where
    d: "haversine_miles (lat c) (lng c) (latitude (h ! a)) (longitude (h ! a)) = Inr d"
    unfolding well_typed_def numeric_def
    using haversine_miles_numeric [of "lat c" _ "lng c" _ "latitude (h ! a)" _ "longitude (h ! a)"]
    by fastforce
  from Cons.prems have "well_typed c rs (h[a := (h ! a)\<lparr>distance_miles := Some d\<rparr>])"
    by (simp add: well_typed_def update_located)
  from Cons.IH [OF this] d show ?case by simp
qed

section \<open>Ranking caller-supplied events\<close>

text \<open>
  On well-typed input the call returns: the heap after the loop, and the first
  \<open>limit\<close> references of the stable sort on the keys.
\<close>

lemma find_nearest_events_supplied:
  assumes "well_typed coords evs (heap s)"
  shows "\<exists>h'. annotate coords evs (heap s) = (Inr (), h')
           \<and> find_nearest_events coords limit (Some evs) w s
               = (Inr (py_slice_to limit (sort_key (\<lambda>r. rank_key (h' ! r)) evs)), s\<lparr>heap := h'\<rparr>)"
  using annotate_total [OF assms] by (auto simp: find_nearest_events_def)

lemma py_slice_to_prefix: "prefix (py_slice_to n xs) xs"
  by (simp add: py_slice_to_def take_is_prefix)

lemma rank_key_written:
  "distance_miles e = Some d' \<Longrightarrow>
     (distance_miles e = Some d) = (rank_key e = (if d = 0 then Infinity else Finite d))"
  by (auto simp: rank_key_def)

lemma dist_key_le [simp]:
  "Finite x \<le> Finite y \<longleftrightarrow> x \<le> y" "Infinity \<le> Finite y \<longleftrightarrow> False" "k \<le> Infinity"
  by (simp_all add: less_eq_dist_key_def split: dist_key.splits)

text \<open>
  What holds of the result for every limit: its length for a limit that is not negative,
  a distance on every returned event, and the order of the keys.
\<close>

lemma find_nearest_events_ranked:
  assumes wt: "well_typed coords evs (heap s)"
  shows "\<exists>out s'. find_nearest_events coords limit (Some evs) w s = (Inr out, s')
           \<and> (0 \<le> limit \<longrightarrow> length out = min (nat limit) (length evs))
           \<and> (\<forall>r \<in> set out. distance_miles (heap s' ! r) \<noteq> None)
           \<and> sorted (map (\<lambda>r. rank_key (heap s' ! r)) out)"
proof -
  from find_nearest_events_supplied [OF wt] obtain h' where
    ann: "annotate coords evs (heap s) = (Inr (), h')" and
    run: "find_nearest_events coords limit (Some evs) w s
            = (Inr (py_slice_to limit (sort_key (\<lambda>r. rank_key (h' ! r)) evs)), s\<lparr>heap := h'\<rparr>)"
    by blast
  let ?ys = "sort_key (\<lambda>r. rank_key (h' ! r)) evs"
  from wt have valid: "\<forall>r \<in> set evs. r < length (heap s)"
    by (simp add: well_typed_def)
  have len: "0 \<le> limit \<longrightarrow> length (py_slice_to limit ?ys) = min (nat limit) (length evs)"
    by (simp add: py_slice_to_def min.commute)
  have sub: "set (py_slice_to limit ?ys) \<subseteq> set evs"
    using set_mono_prefix [OF py_slice_to_prefix [of limit ?ys]] by simp
  have pop: "\<forall>r \<in> set (py_slice_to limit ?ys). distance_miles (h' ! r) \<noteq> None"
  proof
    fix r assume "r \<in> set (py_slice_to limit ?ys)"
    with sub have "r \<in> set evs" by blast
    from annotate_written [OF ann valid this] show "distance_miles (h' ! r) \<noteq> None" by auto
  qed
  have "sorted (map (\<lambda>r. rank_key (h' ! r)) ?ys)"
    by (rule sorted_sort_key)
  then have srt: "sorted (map (\<lambda>r. rank_key (h' ! r)) (py_slice_to limit ?ys))"
    by (simp add: py_slice_to_def take_map [symmetric] sorted_wrt_take)
  from run len pop srt show ?thesis by simp
qed

text \<open>
  The keys order the distances themselves as long as no supplied event lies at distance
  zero from the reference point.
\<close>

lemma find_nearest_events_sorted_off_reference:
  assumes wt: "well_typed coords evs (heap s)"
    and nz: "\<forall>r \<in> set evs. haversine_miles (lat coords) (lng coords)
               (latitude (heap s ! r)) (longitude (heap s ! r)) \<noteq> Inr 0"
  shows "\<exists>out s'. find_nearest_events coords limit (Some evs) w s = (Inr out, s')
           \<and> sorted (map (\<lambda>r. the (distance_miles (heap s' ! r))) out)"
proof -
  from find_nearest_events_supplied [OF wt] obtain h' where
    ann: "annotate coords evs (heap s) = (Inr (), h')" and
    run: "find_nearest_events coords limit (Some evs) w s
            = (Inr (py_slice_to limit (sort_key (\<lambda>r. rank_key (h' ! r)) evs)), s\<lparr>heap := h'\<rparr>)"
    by blast
  let ?ys = "sort_key (\<lambda>r. rank_key (h' ! r)) evs"
  let ?out = "py_slice_to limit ?ys"
  from wt have valid: "\<forall>r \<in> set evs. r < length (heap s)"
    by (simp add: well_typed_def)
  have sub: "set ?out \<subseteq> set evs"
    using set_mono_prefix [OF py_slice_to_prefix [of limit ?ys]] by simp
  have key: "rank_key (h' ! r) = Finite (the (distance_miles (h' ! r)))" if "r \<in> set ?out" for r
  proof -
    from that sub have r: "r \<in> set evs" by blast
    from annotate_written [OF ann valid r] obtain d where
      "haversine_miles (lat coords) (lng coords)
         (latitude (heap s ! r)) (longitude (heap s ! r)) = Inr d"
      "h' ! r = (heap s ! r)\<lparr>distance_miles := Some d\<rparr>"
      by blast
    with nz r show ?thesis by (auto simp: rank_key_def)
  qed
  have "sorted (map (\<lambda>r. rank_key (h' ! r)) ?ys)"
    by (rule sorted_sort_key)
  then have "sorted (map (\<lambda>r. rank_key (h' ! r)) ?out)"
    by (simp add: py_slice_to_def take_map [symmetric] sorted_wrt_take)
  also have "map (\<lambda>r. rank_key (h' ! r)) ?out
      = map Finite (map (\<lambda>r. the (distance_miles (h' ! r))) ?out)"
    by (simp add: key)
  finally have "sorted (map (\<lambda>r. the (distance_miles (h' ! r))) ?out)"
    by (simp add: sorted_map sorted_wrt_map)
  with run show ?thesis by simp
qed

text \<open>
  C1. The result is meant to come back sorted by \<open>distance_miles\<close>. An event exactly at
  the reference point has distance \<open>0.0\<close>, which \<open>or\<close> takes for false: its key
  is infinity and it is ranked last. Here the reference is (0, 0), the first event lies at
  (0, 0) and the second at (90, 0): the call with limit 2 returns the far event first, at
  \<open>3959 * pi / 2\<close> miles, and the event at distance 0 after it.
\<close>

theorem zero_distance_ranked_last:
  "find_nearest_events origin 2 (Some [0, 1]) silent
     \<lparr>heap = [event_at 1 (PFloat 0) (PFloat 0), event_at 2 (PFloat 90) (PFloat 0)], calls = []\<rparr>
   = (Inr [1, 0],
      \<lparr>heap = [(event_at 1 (PFloat 0) (PFloat 0))\<lparr>distance_miles := Some 0\<rparr>,
               (event_at 2 (PFloat 90) (PFloat 0))\<lparr>distance_miles := Some (3959 * (pi / 2))\<rparr>],
       calls = []\<rparr>)
   \<and> \<not> sorted [3959 * (pi / 2), 0 :: real]"
  by (simp add: find_nearest_events_def origin_def event_at_def haversine_miles_0_0
        haversine_miles_0_90 rank_key_def py_slice_to_def not_le)

text \<open>
  C2. A limit below zero is meant to give the empty list. The slice \<open>[:limit]\<close> with
  a negative bound drops that many events from the end instead: three events and limit
  \<open>-1\<close> give the first two.
\<close>

theorem negative_limit_drops_from_the_end:
  "fst (find_nearest_events origin (- 1) (Some [0, 1, 2]) silent
     \<lparr>heap = [event_at 1 (PFloat 90) (PFloat 0), event_at 2 (PFloat 90) (PFloat 0),
               event_at 3 (PFloat 90) (PFloat 0)], calls = []\<rparr>)
   = Inr [0, 1]"
  by (simp add: find_nearest_events_def origin_def event_at_def haversine_miles_0_90
        rank_key_def py_slice_to_def)

text \<open>
  C3, as stated: ranking leaves the supplied events as they were. It does not: the
  distance is assigned to the caller's own object, whose \<open>distance_miles\<close> is
  \<open>None\<close> before the call and the distance after it.
\<close>

theorem find_nearest_events_mutates_input:
  "distance_miles (heap \<lparr>heap = [event_at 1 (PFloat 90) (PFloat 0)], calls = []\<rparr> ! 0) = None
   \<and> distance_miles (heap (snd (find_nearest_events origin 5 (Some [0]) silent
          \<lparr>heap = [event_at 1 (PFloat 90) (PFloat 0)], calls = []\<rparr>)) ! 0)
       = Some (3959 * (pi / 2))"
  by (simp add: find_nearest_events_def origin_def event_at_def haversine_miles_0_90
        rank_key_def py_slice_to_def)

text \<open>
  C3, amended: ranking annotates the supplied events in place. Whether the call returns
  or raises, it makes no outbound call, keeps the size of the heap, changes no field other
  than \<open>distance_miles\<close> and touches no object outside the supplied list; and when
  it returns, every supplied event is the event it was with \<open>distance_miles\<close> set to
  its distance from the reference point.
\<close>

theorem find_nearest_events_annotates_in_place:
  assumes valid: "\<forall>r \<in> set evs. r < length (heap s)"
  shows "calls (snd (find_nearest_events coords limit (Some evs) w s)) = calls s
         \<and> length (heap (snd (find_nearest_events coords limit (Some evs) w s)))
             = length (heap s)
         \<and> (\<forall>i x. (heap (snd (find_nearest_events coords limit (Some evs) w s)) ! i)
                     \<lparr>distance_miles := x\<rparr>
                   = (heap s ! i)\<lparr>distance_miles := x\<rparr>)
         \<and> (\<forall>i. i \<notin> set evs \<longrightarrow>
                heap (snd (find_nearest_events coords limit (Some evs) w s)) ! i = heap s ! i)
         \<and> (\<forall>out. fst (find_nearest_events coords limit (Some evs) w s) = Inr out \<longrightarrow>
               (\<forall>r \<in> set evs. \<exists>d.
                  haversine_miles (lat coords) (lng coords)
                    (latitude (heap s ! r)) (longitude (heap s ! r)) = Inr d
                  \<and> heap (snd (find_nearest_events coords limit (Some evs) w s)) ! r
                      = (heap s ! r)\<lparr>distance_miles := Some d\<rparr>))"
proof -
  obtain res h' where ann: "annotate coords evs (heap s) = (res, h')"
    by (cases "annotate coords evs (heap s)")
  have st: "snd (find_nearest_events coords limit (Some evs) w s) = s\<lparr>heap := h'\<rparr>"
    using ann by (cases res) (simp_all add: find_nearest_events_def)
  have ok: "res = Inr ()" if "fst (find_nearest_events coords limit (Some evs) w s) = Inr out"
    for out
    using that ann by (cases res) (simp_all add: find_nearest_events_def)
  from annotate_frame [OF ann] have
    len: "length h' = length (heap s)" and
    fields: "\<forall>i x. (h' ! i)\<lparr>distance_miles := x\<rparr> = (heap s ! i)\<lparr>distance_miles := x\<rparr>" and
    rest: "\<forall>i. i \<notin> set evs \<longrightarrow> h' ! i = heap s ! i"
    by blast+
  have written: "\<forall>r \<in> set evs. \<exists>d.
      haversine_miles (lat coords) (lng coords)
        (latitude (heap s ! r)) (longitude (heap s ! r)) = Inr d
      \<and> h' ! r = (heap s ! r)\<lparr>distance_miles := Some d\<rparr>"
    if "fst (find_nearest_events coords limit (Some evs) w s) = Inr out" for out
    using annotate_written [OF ann [unfolded ok [OF that]] valid] by blast
  show ?thesis
    unfolding st using len fields rest written by simp
qed

theorem find_nearest_events_annotates_in_place_witness:
  "find_nearest_events origin 5 (Some [0, 2]) silent \<lparr>heap = three_events, calls = []\<rparr>
     = (Inr [0, 2],
        \<lparr>heap = [(event_at 1 (PFloat 90) (PFloat 0))\<lparr>distance_miles := Some (3959 * (pi / 2))\<rparr>,
                 event_at 2 (PFloat 0) (PFloat 0),
                 (event_at 3 (PFloat 90) (PFloat 0))\<lparr>distance_miles := Some (3959 * (pi / 2))\<rparr>],
         calls = []\<rparr>)
   \<and> calls (snd (find_nearest_events origin 5 (Some [0, 2]) silent
                   \<lparr>heap = three_events, calls = []\<rparr>)) = []
   \<and> heap (snd (find_nearest_events origin 5 (Some [0, 2]) silent
                  \<lparr>heap = three_events, calls = []\<rparr>)) ! 1 = three_events ! 1"
proof -
  have valid: "\<forall>r \<in> set [0, 2]. r < length (heap \<lparr>heap = three_events, calls = []\<rparr>)"
    by (simp add: three_events_def)
  have run: "find_nearest_events origin 5 (Some [0, 2]) silent
       \<lparr>heap = three_events, calls = []\<rparr>
     = (Inr [0, 2],
        \<lparr>heap = [(event_at 1 (PFloat 90) (PFloat 0))\<lparr>distance_miles := Some (3959 * (pi / 2))\<rparr>,
                 event_at 2 (PFloat 0) (PFloat 0),
                 (event_at 3 (PFloat 90) (PFloat 0))\<lparr>distance_miles := Some (3959 * (pi / 2))\<rparr>],
         calls = []\<rparr>)"
    by (simp add: find_nearest_events_def origin_def three_events_def event_at_def
          haversine_miles_0_90 rank_key_def py_slice_to_def)
  from find_nearest_events_annotates_in_place [OF valid, where coords = origin and limit = 5
      and w = silent]
  have "calls (snd (find_nearest_events origin 5 (Some [0, 2]) silent
                   \<lparr>heap = three_events, calls = []\<rparr>)) = []
   \<and> heap (snd (find_nearest_events origin 5 (Some [0, 2]) silent
                  \<lparr>heap = three_events, calls = []\<rparr>)) ! 1 = three_events ! 1"
    by simp
  with run show ?thesis by simp
qed

text \<open>
  C7. Ranking is stable. On well-typed input the call returns, and for every distance
  \<open>d\<close> the returned events at distance \<open>d\<close> are, in the same order, the first
  of the supplied events at distance \<open>d\<close>: two events with equal computed distance
  keep their input order, and the cut at \<open>limit\<close> only removes later ones.
\<close>

theorem find_nearest_events_stable:
  assumes wt: "well_typed coords evs (heap s)"
  shows "\<exists>out s'. find_nearest_events coords limit (Some evs) w s = (Inr out, s')
           \<and> prefix (filter (\<lambda>r. distance_miles (heap s' ! r) = Some d) out)
                      (filter (\<lambda>r. distance_miles (heap s' ! r) = Some d) evs)"
proof -
  from find_nearest_events_supplied [OF wt] obtain h' where
    ann: "annotate coords evs (heap s) = (Inr (), h')" and
    run: "find_nearest_events coords limit (Some evs) w s
            = (Inr (py_slice_to limit (sort_key (\<lambda>r. rank_key (h' ! r)) evs)), s\<lparr>heap := h'\<rparr>)"
    by blast
  let ?f = "\<lambda>r. rank_key (h' ! r)"
  let ?P = "\<lambda>r. distance_miles (h' ! r) = Some d"
  let ?k = "if d = 0 then Infinity else Finite d"
  from wt have valid: "\<forall>r \<in> set evs. r < length (heap s)"
    by (simp add: well_typed_def)
  have key: "?P r = (?f r = ?k)" if "r \<in> set evs" for r
  proof -
    from annotate_written [OF ann valid that] obtain d' where
      "h' ! r = (heap s ! r)\<lparr>distance_miles := Some d'\<rparr>" by blast
    then have "distance_miles (h' ! r) = Some d'" by simp
    then show ?thesis by (rule rank_key_written)
  qed
  have "filter ?P (sort_key ?f evs) = filter (\<lambda>r. ?f r = ?k) (sort_key ?f evs)"
    by (rule filter_cong) (simp_all add: key)
  also have "\<dots> = filter (\<lambda>r. ?f r = ?k) evs"
    by (rule sort_key_stable)
  also have "\<dots> = filter ?P evs"
    by (rule filter_cong) (simp_all add: key)
  finally have same: "filter ?P (sort_key ?f evs) = filter ?P evs" .
  have "prefix (filter ?P (py_slice_to limit (sort_key ?f evs))) (filter ?P (sort_key ?f evs))"
    by (rule filter_mono_prefix) (rule py_slice_to_prefix)
  with same run show ?thesis by simp
qed

theorem find_nearest_events_stable_witness:
  "well_typed origin [0, 1, 2] (heap \<lparr>heap = three_events, calls = []\<rparr>)
   \<and> (\<exists>out s'. find_nearest_events origin 2 (Some [0, 1, 2]) silent
                  \<lparr>heap = three_events, calls = []\<rparr> = (Inr out, s')
           \<and> prefix (filter (\<lambda>r. distance_miles (heap s' ! r) = Some (3959 * (pi / 2))) out)
                      (filter (\<lambda>r. distance_miles (heap s' ! r) = Some (3959 * (pi / 2)))
                         [0, 1, 2]))"
proof -
  have wt: "well_typed origin [0, 1, 2] (heap \<lparr>heap = three_events, calls = []\<rparr>)"
    by (simp add: well_typed_def numeric_def py_number_def origin_def three_events_def
          event_at_def)
  from wt find_nearest_events_stable [OF wt, where limit = 2 and w = silent
      and d = "3959 * (pi / 2)"]
  show ?thesis by (rule conjI)
qed

section \<open>The event feed client\<close>

lemmas run_simps =
  and_then_def requests_get_def raise_for_status_def resp_json_def py_get_def dict_get_def
  truthy_def py_first_def py_iter_def event_of_item_def

text \<open>
  What the \<open>except\<close> clause covers: no response, an error status, a body that is not
  JSON. The result is the empty list, and \<open>/events\<close> answers with a count of zero.
\<close>

lemma fetch_nes_events_swallows:
  "feed w = NoResponse \<or> (feed w = Response st b \<and> (400 \<le> st \<and> st < 600 \<or> b = NotJson)) \<Longrightarrow>
     fetch_nes_events w s = (Inr [], s\<lparr>calls := calls s @ [FeedGet]\<rparr>)"
  by (auto simp: fetch_nes_events_def fetch_try_def and_then_def requests_get_def
        raise_for_status_def resp_json_def)

lemma events_empty_on_failure:
  "feed w = NoResponse \<or> (feed w = Response st b \<and> (400 \<le> st \<and> st < 600 \<or> b = NotJson)) \<Longrightarrow>
     fst (events w s) = Inr (PDict [(''count'', PInt 0), (''events'', PList [])], 200)"
  by (simp add: events_def fetch_nes_events_swallows)

text \<open>
  C4, as stated: the fetch returns a list whatever the upstream sends. It does not for a
  body that is JSON but not an array of objects, which gets past the \<open>except\<close>
  clause (it names \<open>RequestException\<close> only): for a JSON object the loop visits the
  keys, and a string has no \<open>get\<close> (\<open>AttributeError\<close>); the same for an array
  holding a number; \<open>null\<close> cannot be iterated (\<open>TypeError\<close>).
\<close>

theorem fetch_nes_events_raises_on_shape:
  "fetch_nes_events (answers PNone (PDict [(''message'', PStr ''Service Unavailable'')])) fresh
     = (Inl AttributeError, \<lparr>heap = [], calls = [FeedGet]\<rparr>)
   \<and> fetch_nes_events (answers PNone (PList [PInt 1])) fresh
     = (Inl AttributeError, \<lparr>heap = [], calls = [FeedGet]\<rparr>)
   \<and> fetch_nes_events (answers PNone PNone) fresh
     = (Inl TypeError, \<lparr>heap = [], calls = [FeedGet]\<rparr>)"
  by (simp add: fetch_nes_events_def fetch_try_def answers_def replies_def fresh_def run_simps)

lemma events_of_items_non_object:
  "\<exists>item \<in> set items. \<not> is_object item \<Longrightarrow> events_of_items items = Inl AttributeError"
proof (induction items)
  case Nil
  then show ?case by simp
next
  case (Cons item items)
  show ?case
  proof (cases "is_object item")
    case True
    with Cons show ?thesis
      by (auto simp: and_then_def event_of_item_def is_object_def split: pyval.splits)
  next
    case False
    then show ?thesis
      by (auto simp: and_then_def event_of_item_def is_object_def split: pyval.splits)
  qed
qed

lemma events_of_items_all_objects:
  "\<forall>item \<in> set items. is_object item \<Longrightarrow>
     \<exists>evs. events_of_items items = Inr evs \<and> length evs = length items"
  by (induction items)
     (auto simp: and_then_def event_of_item_def is_object_def split: pyval.splits)

text \<open>
  C4, amended. Every upstream outcome falls under one of three cases. (1) No response, an
  error status (400 to 599) or a body that is not JSON: the fetch returns the empty list,
  as a value. (2) Another status and a body that decodes to something a loop can visit
  (an array, an object, a string) all of whose visited items are objects: it returns one
  new event per item, in order; this covers every array of objects, and the empty object
  and the empty string, which give the empty list. (3) Another status and a body on which
  the decoder gives up, or one that decodes to something a loop cannot visit, or to
  something with a visited item that is not an object: an exception other than
  \<open>RequestException\<close> leaves the fetch. One outbound call is recorded in each case.
\<close>

theorem fetch_nes_events_handled_outcomes:
  "(feed w = NoResponse \<or> (feed w = Response st b \<and> (400 \<le> st \<and> st < 600 \<or> b = NotJson)) \<longrightarrow>
      fetch_nes_events w s = (Inr [], s\<lparr>calls := calls s @ [FeedGet]\<rparr>))
   \<and> (feed w = Response st (Json v) \<and> \<not> (400 \<le> st \<and> st < 600)
        \<and> py_iter v = Inr items \<and> (\<forall>item \<in> set items. is_object item) \<longrightarrow>
      (\<exists>evs. events_of_items items = Inr evs \<and> length evs = length items
         \<and> fetch_nes_events w s
             = (Inr [length (heap s) ..< length (heap s) + length items],
                s\<lparr>calls := calls s @ [FeedGet], heap := heap s @ evs\<rparr>)))
   \<and> (feed w = Response st b \<and> \<not> (400 \<le> st \<and> st < 600)
        \<and> (b = TooManyDigits \<or> b = TooDeep
            \<or> (\<exists>v. b = Json v
                  \<and> (py_iter v = Inl TypeError
                      \<or> (\<exists>items. py_iter v = Inr items
                            \<and> (\<exists>item \<in> set items. \<not> is_object item))))) \<longrightarrow>
      (\<exists>e. e \<noteq> RequestException
         \<and> fetch_nes_events w s = (Inl e, s\<lparr>calls := calls s @ [FeedGet]\<rparr>)))"
proof (intro conjI impI)
  assume "feed w = NoResponse \<or> (feed w = Response st b \<and> (400 \<le> st \<and> st < 600 \<or> b = NotJson))"
  then show "fetch_nes_events w s = (Inr [], s\<lparr>calls := calls s @ [FeedGet]\<rparr>)"
    by (rule fetch_nes_events_swallows)
next
  assume a: "feed w = Response st (Json v) \<and> \<not> (400 \<le> st \<and> st < 600)
        \<and> py_iter v = Inr items \<and> (\<forall>item \<in> set items. is_object item)"
  then obtain evs where evs: "events_of_items items = Inr evs" "length evs = length items"
    using events_of_items_all_objects by blast
  with a have "fetch_nes_events w s
             = (Inr [length (heap s) ..< length (heap s) + length items],
                s\<lparr>calls := calls s @ [FeedGet], heap := heap s @ evs\<rparr>)"
    by (auto simp: fetch_nes_events_def fetch_try_def and_then_def requests_get_def
          raise_for_status_def resp_json_def Let_def)
  with evs show "\<exists>evs. events_of_items items = Inr evs \<and> length evs = length items
         \<and> fetch_nes_events w s
             = (Inr [length (heap s) ..< length (heap s) + length items],
                s\<lparr>calls := calls s @ [FeedGet], heap := heap s @ evs\<rparr>)"
    by blast
next
  assume a: "feed w = Response st b \<and> \<not> (400 \<le> st \<and> st < 600)
        \<and> (b = TooManyDigits \<or> b = TooDeep
            \<or> (\<exists>v. b = Json v
                  \<and> (py_iter v = Inl TypeError
                      \<or> (\<exists>items. py_iter v = Inr items
                            \<and> (\<exists>item \<in> set items. \<not> is_object item)))))"
  then consider "b = TooManyDigits" | "b = TooDeep"
    | v where "b = Json v" "py_iter v = Inl TypeError"
    | v items where "b = Json v" "py_iter v = Inr items" "\<exists>item \<in> set items. \<not> is_object item"
    by blast
  then have "\<exists>e. e \<noteq> RequestException \<and> fetch_try (feed w) = Inl e"
  proof cases
    case 1
    with a show ?thesis
      by (auto simp: fetch_try_def and_then_def requests_get_def raise_for_status_def
            resp_json_def)
  next
    case 2
    with a show ?thesis
      by (auto simp: fetch_try_def and_then_def requests_get_def raise_for_status_def
            resp_json_def)
  next
    case 3
    with a show ?thesis
      by (auto simp: fetch_try_def and_then_def requests_get_def raise_for_status_def
            resp_json_def)
  next
    case 4
    with a events_of_items_non_object [of items] show ?thesis
      by (auto simp: fetch_try_def and_then_def requests_get_def raise_for_status_def
            resp_json_def)
  qed
  then show "\<exists>e. e \<noteq> RequestException
         \<and> fetch_nes_events w s = (Inl e, s\<lparr>calls := calls s @ [FeedGet]\<rparr>)"
    by (auto simp: fetch_nes_events_def Let_def)
qed

theorem fetch_nes_events_handled_outcomes_witness:
  "(feed (replies NoResponse (Response 200 NotJson)) = Response 200 NotJson
      \<and> fetch_nes_events (replies NoResponse (Response 200 NotJson)) fresh
          = (Inr [], \<lparr>heap = [], calls = [FeedGet]\<rparr>))
   \<and> (feed one_outage = Response 200 (Json (PList [outage_item 7 (PFloat 90) (PFloat 0)]))
      \<and> py_iter (PList [outage_item 7 (PFloat 90) (PFloat 0)])
          = Inr [outage_item 7 (PFloat 90) (PFloat 0)]
      \<and> is_object (outage_item 7 (PFloat 90) (PFloat 0))
      \<and> events_of_items [outage_item 7 (PFloat 90) (PFloat 0)]
          = Inr [event_of 7 (PFloat 90) (PFloat 0)]
      \<and> fetch_nes_events one_outage fresh
          = (Inr [0], \<lparr>heap = [event_of 7 (PFloat 90) (PFloat 0)], calls = [FeedGet]\<rparr>))
   \<and> (feed (replies NoResponse (Response 200 TooManyDigits)) = Response 200 TooManyDigits
      \<and> (\<exists>e. e \<noteq> RequestException
           \<and> fetch_nes_events (replies NoResponse (Response 200 TooManyDigits)) fresh
               = (Inl e, \<lparr>heap = [], calls = [FeedGet]\<rparr>)))"
proof -
  have ev: "events_of_items [outage_item 7 (PFloat 90) (PFloat 0)]
          = Inr [event_of 7 (PFloat 90) (PFloat 0)]"
    by (simp add: outage_item_def event_of_def and_then_def event_of_item_def dict_get_def)
  have it: "py_iter (PList [outage_item 7 (PFloat 90) (PFloat 0)])
          = Inr [outage_item 7 (PFloat 90) (PFloat 0)]"
    by (simp add: py_iter_def)
  have ob: "is_object (outage_item 7 (PFloat 90) (PFloat 0))"
    by (simp add: is_object_def outage_item_def)
  have first: "feed (replies NoResponse (Response 200 NotJson)) = Response 200 NotJson
      \<and> fetch_nes_events (replies NoResponse (Response 200 NotJson)) fresh
          = (Inr [], \<lparr>heap = [], calls = [FeedGet]\<rparr>)"
    using fetch_nes_events_handled_outcomes
      [where w = "replies NoResponse (Response 200 NotJson)" and s = fresh and st = 200
         and b = NotJson]
    by (simp add: replies_def fresh_def)
  have second: "feed one_outage
        = Response 200 (Json (PList [outage_item 7 (PFloat 90) (PFloat 0)]))
      \<and> fetch_nes_events one_outage fresh
          = (Inr [0], \<lparr>heap = [event_of 7 (PFloat 90) (PFloat 0)], calls = [FeedGet]\<rparr>)"
    using ev it ob fetch_nes_events_handled_outcomes
      [where w = one_outage and s = fresh and st = 200
         and v = "PList [outage_item 7 (PFloat 90) (PFloat 0)]"
         and items = "[outage_item 7 (PFloat 90) (PFloat 0)]"]
    by (simp add: replies_def one_outage_def answers_def fresh_def)
  have third: "feed (replies NoResponse (Response 200 TooManyDigits))
        = Response 200 TooManyDigits
      \<and> (\<exists>e. e \<noteq> RequestException
           \<and> fetch_nes_events (replies NoResponse (Response 200 TooManyDigits)) fresh
               = (Inl e, \<lparr>heap = [], calls = [FeedGet]\<rparr>))"
    using fetch_nes_events_handled_outcomes
      [where w = "replies NoResponse (Response 200 TooManyDigits)" and s = fresh and st = 200
         and b = TooManyDigits]
    by (simp add: replies_def fresh_def)
  from first second third ev it ob show ?thesis by blast
qed

section \<open>The geocoding client\<close>

text \<open>
  C5, as stated: every non-success status gives not-found. \<open>raise_for_status\<close>
  rejects the statuses 400 to 599 only: a response with status 302 (or 100, or 600) that
  carries a match is processed like a success and gives coordinates.
\<close>

theorem geocode_address_other_status:
  "fst (geocode_address ''1 Main St''
          (replies (Response 302 (Json (geocoded [match_at (PFloat (- 86)) (PFloat 36)])))
             NoResponse) fresh)
     = Inr (Some \<lparr>lat = PFloat 36, lng = PFloat (- 86)\<rparr>)"
  by (simp add: geocode_address_def geocode_try_def replies_def geocoded_def match_at_def
        fresh_def and_then_def requests_get_def raise_for_status_def resp_json_def py_get_def
        dict_get_def truthy_def py_first_def)

text \<open>
  C5, amended. The geocoder's answer decides the result. No response, an error status (400
  to 599, what \<open>raise_for_status\<close> rejects), a body that is not JSON, and an empty
  (or absent) match list all give \<open>None\<close>, as a value. With any other status, when the
  first match is an object with a \<open>coordinates\<close> object, the result is built from that
  match alone: \<open>lat\<close> is its \<open>y\<close> and \<open>lng\<close> its \<open>x\<close>, whatever matches
  follow. Exactly one outbound call is recorded.
\<close>

theorem geocode_address_result_policy:
  "(geocoder w a = NoResponse \<longrightarrow> fst (geocode_address a w s) = Inr None)
   \<and> (geocoder w a = Response st body \<and> 400 \<le> st \<and> st < 600 \<longrightarrow>
        fst (geocode_address a w s) = Inr None)
   \<and> (geocoder w a = Response st NotJson \<longrightarrow> fst (geocode_address a w s) = Inr None)
   \<and> (geocoder w a = Response st (Json (PDict dat))
        \<and> dict_get dat ''result'' (PDict []) = PDict res
        \<and> dict_get res ''addressMatches'' (PList []) = PList [] \<longrightarrow>
        fst (geocode_address a w s) = Inr None)
   \<and> (geocoder w a = Response st (Json (PDict dat)) \<and> \<not> (400 \<le> st \<and> st < 600)
        \<and> dict_get dat ''result'' (PDict []) = PDict res
        \<and> dict_get res ''addressMatches'' (PList []) = PList (PDict m # ms)
        \<and> dict_get m ''coordinates'' (PDict []) = PDict cs \<longrightarrow>
        fst (geocode_address a w s)
          = Inr (Some \<lparr>lat = dict_get cs ''y'' PNone, lng = dict_get cs ''x'' PNone\<rparr>))
   \<and> snd (geocode_address a w s) = s\<lparr>calls := calls s @ [GeocoderGet a]\<rparr>"
  by (simp add: geocode_address_def geocode_try_def and_then_def requests_get_def
        raise_for_status_def resp_json_def py_get_def truthy_def py_first_def)

theorem geocode_address_result_policy_witness:
  "(geocoder silent ''1 Main St'' = NoResponse
      \<and> fst (geocode_address ''1 Main St'' silent fresh) = Inr None)
   \<and> (geocoder (replies (Response 503 (Json (geocoded [match_at (PFloat 0) (PFloat 0)])))
          NoResponse) ''1 Main St''
        = Response 503 (Json (geocoded [match_at (PFloat 0) (PFloat 0)]))
      \<and> (400 :: nat) \<le> 503 \<and> (503 :: nat) < 600
      \<and> fst (geocode_address ''1 Main St''
            (replies (Response 503 (Json (geocoded [match_at (PFloat 0) (PFloat 0)])))
               NoResponse) fresh) = Inr None)
   \<and> (geocoder (replies (Response 200 NotJson) NoResponse) ''1 Main St'' = Response 200 NotJson
      \<and> fst (geocode_address ''1 Main St'' (replies (Response 200 NotJson) NoResponse) fresh)
          = Inr None)
   \<and> (geocoder (answers (geocoded []) (PList [])) ''1 Main St''
        = Response 200 (Json (PDict [(''result'', PDict [(''addressMatches'', PList [])])]))
      \<and> fst (geocode_address ''1 Main St'' (answers (geocoded []) (PList [])) fresh) = Inr None)
   \<and> (geocoder (answers (geocoded [match_at (PFloat (- 86)) (PFloat 36),
                                     match_at (PFloat 0) (PFloat 0)]) (PList [])) ''1 Main St''
        = Response 200 (Json (geocoded [match_at (PFloat (- 86)) (PFloat 36),
                                        match_at (PFloat 0) (PFloat 0)]))
      \<and> fst (geocode_address ''1 Main St''
            (answers (geocoded [match_at (PFloat (- 86)) (PFloat 36),
                                match_at (PFloat 0) (PFloat 0)]) (PList [])) fresh)
          = Inr (Some \<lparr>lat = PFloat 36, lng = PFloat (- 86)\<rparr>))"
  using
    geocode_address_result_policy [where w = silent and a = "''1 Main St''" and s = fresh]
    geocode_address_result_policy [where a = "''1 Main St''" and s = fresh and st = 503
      and w = "replies (Response 503 (Json (geocoded [match_at (PFloat 0) (PFloat 0)]))) NoResponse"
      and body = "Json (geocoded [match_at (PFloat 0) (PFloat 0)])"]
    geocode_address_result_policy [where a = "''1 Main St''" and s = fresh and st = 200
      and w = "replies (Response 200 NotJson) NoResponse"]
    geocode_address_result_policy [where a = "''1 Main St''" and s = fresh and st = 200
      and w = "answers (geocoded []) (PList [])"
      and dat = "[(''result'', PDict [(''addressMatches'', PList [])])]"
      and res = "[(''addressMatches'', PList [])]"]
    geocode_address_result_policy [where a = "''1 Main St''" and s = fresh and st = 200
      and w = "answers (geocoded [match_at (PFloat (- 86)) (PFloat 36),
                                  match_at (PFloat 0) (PFloat 0)]) (PList [])"
      and dat = "[(''result'', PDict [(''addressMatches'',
                    PList [match_at (PFloat (- 86)) (PFloat 36), match_at (PFloat 0) (PFloat 0)])])]"
      and res = "[(''addressMatches'',
                    PList [match_at (PFloat (- 86)) (PFloat 36), match_at (PFloat 0) (PFloat 0)])]"
      and m = "[(''matchedAddress'', PStr ''1 MAIN ST, NASHVILLE, TN''),
                (''coordinates'', PDict [(''x'', PFloat (- 86)), (''y'', PFloat 36)])]"
      and ms = "[match_at (PFloat 0) (PFloat 0)]"
      and cs = "[(''x'', PFloat (- 86)), (''y'', PFloat 36)]"]
  by (simp add: silent_def replies_def answers_def geocoded_def match_at_def dict_get_def)

text \<open>
  C9. A successful response whose first match has no \<open>coordinates\<close> object, or an
  empty one, gives a \<open>Coordinates\<close> value with \<open>lat\<close> and \<open>lng\<close> both
  \<open>None\<close>, not the not-found signal.
\<close>

theorem geocode_address_partial_result:
  "geocode_address ''1 Main St''
     (answers (geocoded [PDict [(''matchedAddress'', PStr ''1 MAIN ST'')]]) (PList [])) fresh
     = (Inr (Some \<lparr>lat = PNone, lng = PNone\<rparr>),
        \<lparr>heap = [], calls = [GeocoderGet ''1 Main St'']\<rparr>)
   \<and> geocode_address ''1 Main St''
     (answers (geocoded [PDict [(''coordinates'', PDict [])]]) (PList [])) fresh
     = (Inr (Some \<lparr>lat = PNone, lng = PNone\<rparr>),
        \<lparr>heap = [], calls = [GeocoderGet ''1 Main St'']\<rparr>)"
  by (simp add: geocode_address_def geocode_try_def answers_def replies_def geocoded_def
        fresh_def run_simps)

section \<open>The query orchestrator\<close>




section \<open>The HTTP boundary\<close>

text \<open>
  C10. An \<open>address\<close> parameter that is present but empty is handled as a missing one:
  \<open>/nearest\<close> and \<open>/geocode\<close> answer 400 with the error body, the same answer as
  without the parameter, and the state is unchanged, so no outbound call was made.
\<close>

theorem empty_address_is_missing:
  assumes "args ''address'' = Some []"
  shows "nearest py_int args w s
           = (Inr (PDict [(''error'', PStr ''Missing required 'address' parameter'')], 400), s)
         \<and> geocode args w s
           = (Inr (PDict [(''error'', PStr ''Missing required 'address' parameter'')], 400), s)
         \<and> nearest py_int args w s = nearest py_int (args(''address'' := None)) w s
         \<and> geocode args w s = geocode (args(''address'' := None)) w s"
  using assms by (simp add: nearest_def geocode_def)

theorem empty_address_is_missing_witness:
  "(Map.empty(''address'' \<mapsto> [], ''limit'' \<mapsto> ''3'')) ''address'' = Some []
   \<and> nearest (\<lambda>_. Some 3) (Map.empty(''address'' \<mapsto> [], ''limit'' \<mapsto> ''3'')) silent fresh
       = (Inr (PDict [(''error'', PStr ''Missing required 'address' parameter'')], 400), fresh)
   \<and> geocode (Map.empty(''address'' \<mapsto> [], ''limit'' \<mapsto> ''3'')) silent fresh
       = (Inr (PDict [(''error'', PStr ''Missing required 'address' parameter'')], 400), fresh)"
proof -
  have a: "(Map.empty(''address'' \<mapsto> [], ''limit'' \<mapsto> ''3'')) ''address'' = Some []"
    by simp
  from a empty_address_is_missing
      [where args = "Map.empty(''address'' \<mapsto> [], ''limit'' \<mapsto> ''3'')"
         and py_int = "\<lambda>_. Some 3" and w = silent and s = fresh, OF a]
  show ?thesis by blast
qed

end
